theory Spec2Isabelle
  imports Main
begin

section \<open>The two views of the rendering example\<close>

text \<open>
  The repository holds two React function components: \<^verbatim>\<open>page\<close> in
  \<^verbatim>\<open>src/app/page.tsx\<close> (the landing view) and \<^verbatim>\<open>DashboardPage\<close> in
  \<^verbatim>\<open>src/app/dashboard/page.tsx\<close> (the echo view). A component is a function that
  the host evaluates to an element tree; what it does besides returning the tree
  (reading its state hook, writing to the console) is made explicit by passing the
  host's runtime through it.
\<close>

subsection \<open>Element trees\<close>

text \<open>
  A browser change event, as far as the handler reads it: \<^verbatim>\<open>evt.target.value\<close> is
  the whole content of the text field after the edit.
\<close>

record dom_target =
  "value" :: string

record change_event =
  target :: dom_target

text \<open>
  What a component instance owns in the host: the cell of its single
  \<^verbatim>\<open>useState\<close> hook (\<open>None\<close> until the first evaluation has run the hook) and
  the lines written to the console so far.
\<close>

record runtime =
  hook :: "string option"
  console :: "string list"

text \<open>The element types the two files use: four host tags and the router's link.\<close>

datatype tag = Div | H1 | H2 | Input | Link

text \<open>The attributes the two files set.\<close>

datatype jsx_prop =
    Value string
  | Href string
  | OnChange "change_event \<Rightarrow> runtime \<Rightarrow> runtime"

text \<open>
  JSX text and \<^verbatim>\<open>{expr}\<close> children are text nodes; \<^verbatim>\<open><h2>Hello, {name}!</h2>\<close>
  has the three children \<^verbatim>\<open>"Hello, "\<close>, \<^verbatim>\<open>name\<close> and \<^verbatim>\<open>"!"\<close>.
\<close>

datatype node =
    Text string
  | Element tag "jsx_prop list" "node list"

type_synonym component = "runtime \<Rightarrow> node \<times> runtime"

subsection \<open>The host operations the components call\<close>

definition console_log :: "string \<Rightarrow> runtime \<Rightarrow> runtime" where
  "console_log line w = w\<lparr>console := console w @ [line]\<rparr>"

text \<open>
  The setter that \<^verbatim>\<open>useState\<close> hands out stores its argument in the hook cell,
  whatever the argument is.
\<close>

definition set_state :: "string \<Rightarrow> runtime \<Rightarrow> runtime" where
  "set_state v w = w\<lparr>hook := Some v\<rparr>"

text \<open>
  \<^verbatim>\<open>useState(init)\<close>: the first evaluation stores and returns \<open>init\<close>, every later
  one returns what the cell holds; both return the setter.
\<close>

definition useState ::
  "string \<Rightarrow> runtime \<Rightarrow> (string \<times> (string \<Rightarrow> runtime \<Rightarrow> runtime)) \<times> runtime" where
  "useState init w =
     (case hook w of
        None \<Rightarrow> ((init, set_state), w\<lparr>hook := Some init\<rparr>)
      | Some v \<Rightarrow> ((v, set_state), w))"

subsection \<open>The landing view: \<^verbatim>\<open>src/app/page.tsx\<close>\<close>

definition page :: component where
  "page w =
     (Element Div []
        [Element H2 [] [Text ''Home Page''],
         Element Link [Href ''/dashboard''] [Text ''To Dashboard'']],
      w)"

subsection \<open>The echo view: \<^verbatim>\<open>src/app/dashboard/page.tsx\<close>\<close>

definition DashboardPage :: component where
  "DashboardPage w0 =
     (let w1 = console_log ''Dashboard client-component'' w0;
          ((name, setName), w2) = useState [] w1
      in (Element Div []
            [Element H1 [] [Text ''DashboardPage''],
             Element Input
               [Value name, OnChange (\<lambda>evt. setName (value (target evt)))] [],
             Element H2 [] [Text ''Hello, '', Text name, Text ''!'']],
          w2))"

subsection \<open>Reading an element tree\<close>

text \<open>The text a node shows: its text nodes, in document order.\<close>

fun text_content :: "node \<Rightarrow> string" where
  "text_content (Text s) = s"
| "text_content (Element t ps cs) = concat (map text_content cs)"

text \<open>The elements of one type in a tree, in document order.\<close>

fun find_all :: "tag \<Rightarrow> node \<Rightarrow> node list" where
  "find_all t (Text s) = []"
| "find_all t (Element t' ps cs) =
     (if t' = t then [Element t' ps cs] else []) @ concat (map (find_all t) cs)"

fun props :: "node \<Rightarrow> jsx_prop list" where
  "props (Text s) = []"
| "props (Element t ps cs) = ps"

fun value_prop :: "jsx_prop list \<Rightarrow> string option" where
  "value_prop [] = None"
| "value_prop (Value s # ps) = Some s"
| "value_prop (p # ps) = value_prop ps"

fun href_prop :: "jsx_prop list \<Rightarrow> string option" where
  "href_prop [] = None"
| "href_prop (Href s # ps) = Some s"
| "href_prop (p # ps) = href_prop ps"

fun onChange_prop :: "jsx_prop list \<Rightarrow> (change_event \<Rightarrow> runtime \<Rightarrow> runtime) option" where
  "onChange_prop [] = None"
| "onChange_prop (OnChange h # ps) = Some h"
| "onChange_prop (p # ps) = onChange_prop ps"

text \<open>The texts of the headings of one level, in document order.\<close>

definition headings :: "tag \<Rightarrow> node \<Rightarrow> string list" where
  "headings t n = map text_content (find_all t n)"

text \<open>What each text field of a tree displays: a controlled input shows its \<^verbatim>\<open>value\<close>.\<close>

definition displayed_values :: "node \<Rightarrow> string option list" where
  "displayed_values n = map (\<lambda>e. value_prop (props e)) (find_all Input n)"

text \<open>The label and the target address of each navigation element of a tree.\<close>

definition links :: "node \<Rightarrow> (string \<times> string option) list" where
  "links n = map (\<lambda>e. (text_content e, href_prop (props e))) (find_all Link n)"

subsection \<open>The router's link\<close>

text \<open>
  Modelled from the spec: \<^verbatim>\<open>Link\<close> is imported from the router
  (\<^verbatim>\<open>next/link\<close>), whose code is not part of the repository. Activating a link
  asks the router to navigate to the address in its \<^verbatim>\<open>href\<close>; no other element
  navigates.
\<close>

datatype nav_request = Navigate string

fun activate :: "node \<Rightarrow> nav_request option" where
  "activate (Element Link ps cs) = map_option Navigate (href_prop ps)"
| "activate n = None"

subsection \<open>The life of an echo view in the host\<close>

text \<open>A view on screen: the tree of its last evaluation and the runtime it owns.\<close>

record view =
  screen :: node
  store :: runtime

definition evaluate :: "component \<Rightarrow> runtime \<Rightarrow> view" where
  "evaluate c w = (let (n, w') = c w in \<lparr>screen = n, store = w'\<rparr>)"

text \<open>Mounting evaluates the component once, with a fresh hook cell and console.\<close>

definition mount :: view where
  "mount = evaluate DashboardPage \<lparr>hook = None, console = []\<rparr>"

text \<open>
  The state value the component reads at its next evaluation: what its
  \<^verbatim>\<open>useState("")\<close> call returns as \<^verbatim>\<open>name\<close>.
\<close>

definition current_name :: "runtime \<Rightarrow> string" where
  "current_name w = fst (fst (useState [] w))"

text \<open>
  Update text: the user edits the text field so that it holds \<open>s\<close>. The host calls
  the \<^verbatim>\<open>onChange\<close> handler that the tree on screen gives its input, with an event
  whose \<^verbatim>\<open>target.value\<close> is \<open>s\<close>, and evaluates the component again. A host may skip
  that evaluation when the handler left the state value as it was; \<open>skip\<close> says
  whether this host does. A text field without a handler is read-only.
\<close>

definition update_text :: "bool \<Rightarrow> string \<Rightarrow> view \<Rightarrow> view" where
  "update_text skip s v =
     (case find_all Input (screen v) of
        [] \<Rightarrow> v
      | e # es \<Rightarrow>
          (case onChange_prop (props e) of
             None \<Rightarrow> v
           | Some h \<Rightarrow>
               (let w = h \<lparr>target = \<lparr>value = s\<rparr>\<rparr> (store v)
                in if skip \<and> hook w = hook (store v) then v\<lparr>store := w\<rparr>
                   else evaluate DashboardPage w)))"

text \<open>A mounted view after a sequence of edits, each with the host's choice.\<close>

definition run :: "(bool \<times> string) list \<Rightarrow> view" where
  "run evs = foldl (\<lambda>v (skip, s). update_text skip s v) mount evs"

text \<open>The tree the echo view shows for a state value.\<close>

definition rendered :: "string \<Rightarrow> node" where
  "rendered s = fst (DashboardPage \<lparr>hook = Some s, console = []\<rparr>)"

section \<open>Properties\<close>

subsection \<open>What one evaluation does\<close>

lemma current_name_simps:
  "current_name \<lparr>hook = None, console = c\<rparr> = []"
  "current_name \<lparr>hook = Some s, console = c\<rparr> = s"
  by (simp_all add: current_name_def useState_def)

lemma fst_DashboardPage: "fst (DashboardPage w) = rendered (current_name w)"
  by (simp add: DashboardPage_def rendered_def current_name_def useState_def console_log_def
      split: option.splits)

lemma snd_DashboardPage:
  "snd (DashboardPage w) =
     \<lparr>hook = Some (current_name w), console = console w @ [''Dashboard client-component'']\<rparr>"
  by (simp add: DashboardPage_def current_name_def useState_def console_log_def
      split: option.splits)

lemma rendered_eq:
  "rendered s =
     Element Div []
       [Element H1 [] [Text ''DashboardPage''],
        Element Input [Value s, OnChange (\<lambda>evt. set_state (value (target evt)))] [],
        Element H2 [] [Text ''Hello, '', Text s, Text ''!'']]"
  by (simp add: rendered_def DashboardPage_def useState_def console_log_def)

lemma headings_rendered:
  "headings H1 (rendered s) = [''DashboardPage'']"
  "headings H2 (rendered s) = [''Hello, '' @ s @ ''!'']"
  by (simp_all add: rendered_eq headings_def)

lemma displayed_values_rendered: "displayed_values (rendered s) = [Some s]"
  by (simp add: rendered_eq displayed_values_def)

lemma evaluate_DashboardPage:
  "evaluate DashboardPage w =
     \<lparr>screen = rendered (current_name w),
      store = \<lparr>hook = Some (current_name w),
               console = console w @ [''Dashboard client-component'']\<rparr>\<rparr>"
proof (cases "DashboardPage w")
  case (Pair n w')
  with fst_DashboardPage [of w] snd_DashboardPage [of w] show ?thesis
    by (simp add: evaluate_def)
qed

lemma mount_eq:
  "mount =
     \<lparr>screen = rendered [],
      store = \<lparr>hook = Some [], console = [''Dashboard client-component'']\<rparr>\<rparr>"
  by (simp add: mount_def evaluate_DashboardPage current_name_simps)

lemma current_name_set_state: "current_name (set_state s w) = s"
  by (simp add: current_name_def useState_def set_state_def)

subsection \<open>Edits keep the screen and the state together\<close>

lemma set_state_simps:
  "hook (set_state s w) = Some s"
  "console (set_state s w) = console w"
  by (simp_all add: set_state_def)

lemma update_text_rendered:
  assumes "screen v = rendered s0"
  shows "update_text skip s v =
           (if skip \<and> hook (store v) = Some s then v\<lparr>store := set_state s (store v)\<rparr>
            else \<lparr>screen = rendered s,
                  store = \<lparr>hook = Some s,
                    console = console (store v) @ [''Dashboard client-component'']\<rparr>\<rparr>)"
  using assms
  by (simp add: update_text_def rendered_eq [of s0] evaluate_DashboardPage
      current_name_set_state set_state_simps Let_def eq_commute [of "Some s"])

lemma run_Nil: "run [] = mount"
  by (simp add: run_def)

lemma run_snoc: "run (evs @ [(skip, s)]) = update_text skip s (run evs)"
  by (simp add: run_def)

lemma run_consistent:
  "screen (run evs) = rendered (current_name (store (run evs))) \<and>
   hook (store (run evs)) = Some (current_name (store (run evs)))"
proof (induction evs rule: rev_induct)
  case Nil
  show ?case by (simp add: run_Nil mount_eq current_name_simps)
next
  case (snoc e evs)
  obtain skip s where e: "e = (skip, s)" by (cases e)
  from snoc have scr: "screen (run evs) = rendered (current_name (store (run evs)))"
    by simp
  show ?case
    unfolding e run_snoc update_text_rendered [OF scr]
    using snoc by (simp add: current_name_simps current_name_set_state set_state_simps)
qed

lemma update_text_run:
  "screen (update_text skip s (run evs)) = rendered s \<and>
   hook (store (update_text skip s (run evs))) = Some s \<and>
   current_name (store (update_text skip s (run evs))) = s"
proof -
  have scr: "screen (run evs) = rendered (current_name (store (run evs)))"
    and hk: "hook (store (run evs)) = Some (current_name (store (run evs)))"
    using run_consistent [of evs] by simp_all
  show ?thesis
    unfolding update_text_rendered [OF scr]
    using scr hk by (auto simp add: current_name_simps current_name_set_state set_state_simps)
qed

subsection \<open>The claims\<close>

lemma run_last_greeting:
  "headings H2 (screen (run (evs @ [(skip, s)]))) = [''Hello, '' @ s @ ''!'']"
  by (simp add: run_snoc update_text_run headings_rendered)

text \<open>
  Claim C1. Whatever was typed before and whatever the host chooses, after update text
  with \<open>s\<close> the view shows exactly one greeting heading, and its text is
  \<open>''Hello, '' @ s @ ''!''\<close>: the whole content of the field, not what the edit added.
  In particular the edits ``A'', ``Al'', ``Ali'' show ``Hello, A!'', ``Hello, Al!'',
  ``Hello, Ali!'' in turn.
\<close>

theorem update_text_greeting:
  "headings H2 (screen (update_text skip s (run evs))) = [''Hello, '' @ s @ ''!''] \<and>
   map (\<lambda>evs. headings H2 (screen (run evs)))
     [[(a, ''A'')],
      [(a, ''A''), (b, ''Al'')],
      [(a, ''A''), (b, ''Al''), (c, ''Ali'')]] =
     [[''Hello, A!''], [''Hello, Al!''], [''Hello, Ali!'']]"
proof -
  have "headings H2 (screen (run [(a, ''A'')])) = [''Hello, A!'']"
    using run_last_greeting [of "[]" a "''A''"] by simp
  moreover have "headings H2 (screen (run [(a, ''A''), (b, ''Al'')])) = [''Hello, Al!'']"
    using run_last_greeting [of "[(a, ''A'')]" b "''Al''"] by simp
  moreover have
    "headings H2 (screen (run [(a, ''A''), (b, ''Al''), (c, ''Ali'')])) = [''Hello, Ali!'']"
    using run_last_greeting [of "[(a, ''A''), (b, ''Al'')]" c "''Ali''"] by simp
  ultimately show ?thesis
    by (simp add: update_text_run headings_rendered)
qed

text \<open>
  Claim C2. The hook starts from the empty string: the first evaluation reads \<open>[]\<close>
  as \<^verbatim>\<open>name\<close>, the mounted view holds \<open>[]\<close> in its hook cell, its greeting is
  ``Hello, !'' and its text field displays the empty string.
\<close>

theorem mount_initial:
  "current_name \<lparr>hook = None, console = c\<rparr> = [] \<and>
   hook (store mount) = Some [] \<and>
   headings H2 (screen mount) = [''Hello, !''] \<and>
   displayed_values (screen mount) = [Some []]"
  by (simp add: mount_eq current_name_simps headings_rendered displayed_values_rendered)

text \<open>
  Claim C3. After every sequence of edits the tree on screen shows the state value the
  view holds: the text field displays it, the greeting is ``Hello, '' followed by it and
  ``!'', the first heading is the literal ``DashboardPage''; and the state value held
  after a sequence of edits is the text of the last one.
\<close>

theorem run_shows_state:
  "displayed_values (screen (run evs)) = [Some (current_name (store (run evs)))] \<and>
   headings H2 (screen (run evs)) = [''Hello, '' @ current_name (store (run evs)) @ ''!''] \<and>
   headings H1 (screen (run evs)) = [''DashboardPage''] \<and>
   current_name (store (run (evs @ [(skip, s)]))) = s"
  by (simp add: run_consistent [of evs] run_snoc update_text_run headings_rendered
      displayed_values_rendered)

text \<open>
  Claim C4. Update text with any string \<open>s\<close> (empty, long, of any content) leaves
  \<open>s\<close> in the hook cell, in every reachable view and for each choice of the host. The
  handler that any evaluation of the component gives its text field stores the event's
  \<^verbatim>\<open>target.value\<close> in any runtime it is called in: it checks nothing, bounds nothing
  and has no result other than the updated runtime.
\<close>

theorem update_text_replaces:
  "hook (store (update_text skip s (run evs))) = Some s \<and>
   map (\<lambda>e. map_option (\<lambda>h. hook (h \<lparr>target = \<lparr>value = s\<rparr>\<rparr> w)) (onChange_prop (props e)))
     (find_all Input (fst (DashboardPage w0))) = [Some (Some s)]"
  by (simp add: update_text_run fst_DashboardPage rendered_eq set_state_simps)

text \<open>
  Claim C5. Update text with the empty string, after any edits, brings the greeting back
  to ``Hello, !'', the greeting of the mounted view; the whole tree on screen is again the
  tree of the mounted view.
\<close>

theorem update_text_empty_resets:
  "headings H2 (screen (update_text skip [] (run evs))) = [''Hello, !''] \<and>
   headings H2 (screen (update_text skip [] (run evs))) = headings H2 (screen mount) \<and>
   displayed_values (screen (update_text skip [] (run evs))) = displayed_values (screen mount) \<and>
   screen (update_text skip [] (run evs)) = screen mount"
  by (simp add: update_text_run mount_eq headings_rendered)

text \<open>
  Claim C6. The landing view reads nothing: in any runtime it returns the same tree, with
  one heading ``Home Page'' and one navigation element, labelled ``To Dashboard'', whose
  target address is ``/dashboard''; and it leaves the runtime as it found it.
\<close>

theorem page_fixed:
  "headings H2 (fst (page w)) = [''Home Page''] \<and>
   links (fst (page w)) = [(''To Dashboard'', Some ''/dashboard'')] \<and>
   fst (page w) = fst (page w') \<and>
   snd (page w) = w"
  by (simp add: page_def links_def headings_def)

text \<open>
  Claim C7. Activating the navigation element of the landing view asks the router to
  navigate to exactly ``/dashboard''.
\<close>

theorem page_link_navigates:
  "map activate (find_all Link (fst (page w))) = [Some (Navigate ''/dashboard'')]"
  by (simp add: page_def)

text \<open>
  Claim C8. Every evaluation of the echo view, in any runtime (so the first one and each
  later one alike), appends exactly one line ``Dashboard client-component'' to the
  console. The mounted view has logged one line, and an edit that the host answers with
  an evaluation adds one more: the line is not logged once per mount only.
\<close>

theorem DashboardPage_logs_once:
  "console (snd (DashboardPage w)) = console w @ [''Dashboard client-component''] \<and>
   console (store mount) = [''Dashboard client-component''] \<and>
   console (store (update_text False s (run evs))) =
     console (store (run evs)) @ [''Dashboard client-component'']"
  by (simp add: snd_DashboardPage mount_eq update_text_rendered [OF conjunct1 [OF run_consistent]])

text \<open>
  Claim C9. Update text is idempotent on what the view holds and shows: doing it with the
  same \<open>s\<close> twice in a row leaves the hook cell and the tree on screen as doing it once,
  for each choice of the host at either edit.
\<close>

theorem update_text_idempotent:
  "hook (store (update_text k2 s (update_text k1 s (run evs)))) =
     hook (store (update_text k1 s (run evs))) \<and>
   screen (update_text k2 s (update_text k1 s (run evs))) =
     screen (update_text k1 s (run evs))"
  using update_text_run [of k2 s "evs @ [(k1, s)]"] update_text_run [of k1 s evs]
  by (simp add: run_snoc)

text \<open>
  Claim C10. Rendering is deterministic. The landing view returns the same tree in any two
  runtimes. The tree the echo view returns depends on the runtime through the state value
  alone: two runtimes with the same state value, whatever their consoles hold and whether
  or not the hook has run before, give the same headings, text field and greeting.
\<close>

theorem render_deterministic:
  "fst (page w1) = fst (page w2) \<and>
   (current_name w1 = current_name w2 \<longrightarrow> fst (DashboardPage w1) = fst (DashboardPage w2))"
  by (simp add: page_def fst_DashboardPage)

text \<open>
  An instance: a fresh runtime, and one whose hook already holds the empty string and
  whose console is not empty.
\<close>

theorem render_deterministic_witness:
  "current_name \<lparr>hook = None, console = []\<rparr> =
     current_name \<lparr>hook = Some [], console = [''earlier line'']\<rparr> \<and>
   fst (DashboardPage \<lparr>hook = None, console = []\<rparr>) =
     fst (DashboardPage \<lparr>hook = Some [], console = [''earlier line'']\<rparr>)"
  using render_deterministic
    [of "\<lparr>hook = None, console = []\<rparr>"
        "\<lparr>hook = Some [], console = [''earlier line'']\<rparr>"]
  by (simp add: current_name_def useState_def)

end
